theory Spec2Isabelle
  imports Complex_Main
begin

section \<open>The stellar evolution model of \<^verbatim>\<open>src/main.py\<close> (class \<^verbatim>\<open>StarPhysics\<close>)\<close>

text \<open>
  A Python float is modelled by the real number it denotes. What the interpreter does
  with the numbers on the paths of \<^verbatim>\<open>StarPhysics\<close> is modelled as follows.
  \<^item> A division by zero raises \<^verbatim>\<open>ZeroDivisionError\<close>.
  \<^item> A power \<^verbatim>\<open>x ** y\<close> whose result is too large for a double raises
    \<^verbatim>\<open>OverflowError\<close>; a negative float under a fractional exponent yields a complex
    number (Python 3 does not raise there).
  \<^item> An ordering comparison on a Python complex raises \<^verbatim>\<open>TypeError\<close>.
  \<^item> \<^verbatim>\<open>np.log10(0.0)\<close> is \<^verbatim>\<open>-inf\<close>, and numpy compares complex numbers
    lexicographically.
  \<^item> The formation time \<^verbatim>\<open>50000 * (1 / initial_mass)\<close> and the age, which
    \<^verbatim>\<open>self.age += delta_time\<close> accumulates, are rounded to double precision as IEEE 754
    prescribes (for the formation time the reciprocal first, then the product): the
    stage of a star whose age is at the formation time depends on the last bit, and a
    small time step is absorbed by a large age.
  \<^item> All other sums, differences, products and quotients, the powers and the logarithm
    are exact: their rounding, underflow and overflow to \<^verbatim>\<open>inf\<close> are not modelled.
    The facts below that depend on such a value are therefore stated as bounds that
    rounding respects.
\<close>

subsection \<open>Values\<close>

datatype stage = Protostar | MainSequence | RedGiant | WhiteDwarf | Supernova

datatype error = ZeroDivisionError | TypeError | OverflowError

text \<open>A Python number on these paths is a float or, after a fractional power of a
  negative float, a complex.\<close>

datatype pynum = PyFloat real | PyComplex complex

text \<open>What \<^verbatim>\<open>get_emission\<close> can return: a finite float, \<^verbatim>\<open>-inf\<close>, a numpy
  complex, or the numpy complex \<^verbatim>\<open>-inf+0j\<close>.\<close>

datatype pyvalue = Finite real | NegInf | ComplexValue complex | ComplexNegInf

record StarPhysics =
  initial_mass :: real
  current_mass :: real
  h2_percentage :: real
  current_h2 :: real
  age :: real
  luminosity :: pynum
  temperature :: pynum
  radius :: pynum
  initial_radius :: pynum
  stage :: stage
  expansion_factor :: real

subsection \<open>Arithmetic of the interpreter\<close>

definition bindE :: "error + 'a \<Rightarrow> ('a \<Rightarrow> error + 'b) \<Rightarrow> error + 'b" where
  "bindE r f = (case r of Inl e \<Rightarrow> Inl e | Inr v \<Rightarrow> f v)"

text \<open>Rounding to the nearest double, ties to even: 53 significant bits, exponents
  from \<open>-1022\<close> (below that the spacing stays \<open>2^-1074\<close>). Overflow is not modelled.\<close>

definition round_half_even :: "real \<Rightarrow> int" where
  "round_half_even r =
     (let f = \<lfloor>r\<rfloor>; d = r - of_int f
      in if d < 1 / 2 then f else if 1 / 2 < d then f + 1
         else if even f then f else f + 1)"

definition fl :: "real \<Rightarrow> real" where
  "fl x =
     (if x = 0 then 0
      else let e = max \<lfloor>log 2 \<bar>x\<bar>\<rfloor> (- 1022); ulp = 2 powi (e - 52)
           in of_int (round_half_even (x / ulp)) * ulp)"

text \<open>The least magnitude that rounds to infinity: halfway between the largest double
  and \<open>2^1024\<close>.\<close>

definition dbl_overflow :: real where
  "dbl_overflow = 2 ^ 1024 - 2 ^ 970"

text \<open>\<^verbatim>\<open>x ** y\<close> on floats: \<^verbatim>\<open>0.0 ** y\<close> raises \<^verbatim>\<open>ZeroDivisionError\<close> for negative \<open>y\<close>;
  a result out of range raises \<^verbatim>\<open>OverflowError\<close>; a negative base with a non-integral
  exponent is handed to the complex power, which computes in polar form with the
  argument \<open>\<pi>\<close> of the negative real and raises \<^verbatim>\<open>OverflowError\<close> when the modulus is
  out of range.\<close>

definition float_pow :: "real \<Rightarrow> real \<Rightarrow> error + pynum" where
  "float_pow x y =
     (if x = 0 then
        (if y < 0 then Inl ZeroDivisionError
         else if y = 0 then Inr (PyFloat 1) else Inr (PyFloat 0))
      else if 0 < x then
        (if dbl_overflow \<le> x powr y then Inl OverflowError
         else Inr (PyFloat (x powr y)))
      else if y = of_int \<lfloor>y\<rfloor> then
        (if dbl_overflow \<le> \<bar>x powi \<lfloor>y\<rfloor>\<bar> then Inl OverflowError
         else Inr (PyFloat (x powi \<lfloor>y\<rfloor>)))
      else
        (if dbl_overflow \<le> \<bar>x\<bar> powr y then Inl OverflowError
         else Inr (PyComplex (of_real (\<bar>x\<bar> powr y) * cis (pi * y)))))"

text \<open>\<^verbatim>\<open>z ** y\<close> on a complex base and a float exponent.\<close>

definition complex_pow :: "complex \<Rightarrow> real \<Rightarrow> error + pynum" where
  "complex_pow z y =
     (if y = 0 then Inr (PyComplex 1)
      else if z = 0 then (if y < 0 then Inl ZeroDivisionError else Inr (PyComplex 0))
      else if dbl_overflow \<le> cmod z powr y then Inl OverflowError
      else Inr (PyComplex (of_real (cmod z powr y) * cis (Arg z * y))))"

definition pynum_pow :: "pynum \<Rightarrow> real \<Rightarrow> error + pynum" where
  "pynum_pow n y = (case n of PyFloat x \<Rightarrow> float_pow x y | PyComplex z \<Rightarrow> complex_pow z y)"

text \<open>The product of a float and a number.\<close>

definition pynum_scale :: "real \<Rightarrow> pynum \<Rightarrow> pynum" where
  "pynum_scale c n =
     (case n of PyFloat x \<Rightarrow> PyFloat (c * x) | PyComplex z \<Rightarrow> PyComplex (of_real c * z))"

subsection \<open>The methods of \<^verbatim>\<open>StarPhysics\<close>\<close>

text \<open>\<^verbatim>\<open>get_formation_time\<close>: \<^verbatim>\<open>50000 * (1 / self.initial_mass)\<close>, in double precision.\<close>

definition get_formation_time :: "StarPhysics \<Rightarrow> error + real" where
  "get_formation_time s =
     (if initial_mass s = 0 then Inl ZeroDivisionError
      else Inr (fl (50000 * fl (1 / initial_mass s))))"

text \<open>\<^verbatim>\<open>get_main_sequence_lifetime\<close>:
  \<^verbatim>\<open>1e10 * (self.initial_mass ** -2.5) * (self.h2_percentage / 71)\<close>.\<close>

definition get_main_sequence_lifetime :: "StarPhysics \<Rightarrow> error + pynum" where
  "get_main_sequence_lifetime s =
     bindE (float_pow (initial_mass s) (- 2.5))
       (\<lambda>p. Inr (pynum_scale (h2_percentage s / 71) (pynum_scale (10 ^ 10) p)))"

text \<open>\<^verbatim>\<open>calculate_base_radius\<close>.\<close>

definition calculate_base_radius :: "StarPhysics \<Rightarrow> error + pynum" where
  "calculate_base_radius s =
     (if current_mass s < 1.0 then float_pow (current_mass s) 0.8
      else float_pow (current_mass s) 0.57)"

text \<open>\<^verbatim>\<open>handle_stage_transition\<close>.\<close>

definition handle_stage_transition :: "stage \<Rightarrow> stage \<Rightarrow> StarPhysics \<Rightarrow> StarPhysics" where
  "handle_stage_transition old_stage new_stage s =
     (if old_stage = MainSequence \<and> new_stage = RedGiant
        then s\<lparr>expansion_factor := expansion_factor s * 2.0\<rparr>
      else if new_stage = Supernova
        then s\<lparr>expansion_factor := expansion_factor s * 10.0\<rparr>
      else s)"

text \<open>The \<^verbatim>\<open>if\<close>/\<^verbatim>\<open>elif\<close> chain of \<^verbatim>\<open>determine_stage\<close>, given the formation time.\<close>

definition new_stage :: "real \<Rightarrow> StarPhysics \<Rightarrow> stage" where
  "new_stage ft s =
     (if age s < ft then Protostar
      else if current_h2 s > 0.1 then MainSequence
      else if current_mass s > 1.44 then
        (if stage s \<noteq> Supernova then RedGiant else Supernova)
      else if current_h2 s \<le> 0.1 \<and> stage s \<noteq> WhiteDwarf then RedGiant
      else WhiteDwarf)"

text \<open>\<^verbatim>\<open>determine_stage\<close>.\<close>

definition determine_stage :: "StarPhysics \<Rightarrow> error + StarPhysics" where
  "determine_stage s =
     bindE (get_formation_time s) (\<lambda>ft.
       let old_stage = stage s;
           new = new_stage ft s;
           s' = (if old_stage \<noteq> new then handle_stage_transition old_stage new s else s)
       in Inr (s'\<lparr>stage := new\<rparr>))"

text \<open>\<^verbatim>\<open>update_expansion_factor\<close>. In the Main Sequence branch the comparison
  \<^verbatim>\<open>ms_lifetime > 0\<close> raises on a complex lifetime.\<close>

definition update_expansion_factor :: "StarPhysics \<Rightarrow> error + StarPhysics" where
  "update_expansion_factor s =
     (case stage s of
        Protostar \<Rightarrow>
          bindE (get_formation_time s) (\<lambda>ft.
            let time_factor = min 1.0 (age s / ft)
            in Inr (s\<lparr>expansion_factor := 2.0 - time_factor\<rparr>))
      | MainSequence \<Rightarrow>
          bindE (get_main_sequence_lifetime s) (\<lambda>l.
            case l of
              PyComplex z \<Rightarrow> Inl TypeError
            | PyFloat ms_lifetime \<Rightarrow>
                if ms_lifetime > 0 then
                  (let progress = min 1.0 (age s / ms_lifetime)
                   in Inr (s\<lparr>expansion_factor := 1.0 + (progress * 0.5)\<rparr>))
                else Inr s)
      | RedGiant \<Rightarrow>
          (let target_expansion = (if initial_mass s > 1.44 then 100 else 50);
               current_expansion = expansion_factor s
           in Inr (s\<lparr>expansion_factor := min target_expansion (current_expansion + 0.1)\<rparr>))
      | WhiteDwarf \<Rightarrow>
          Inr (s\<lparr>expansion_factor := max 0.01 (expansion_factor s * 0.95)\<rparr>)
      | Supernova \<Rightarrow>
          Inr (s\<lparr>expansion_factor := expansion_factor s * 1.5\<rparr>))"

text \<open>The mass-luminosity relation at the head of \<^verbatim>\<open>update_stellar_properties\<close>.\<close>

definition mass_luminosity :: "real \<Rightarrow> error + pynum" where
  "mass_luminosity m =
     (if m < 0.43 then bindE (float_pow m 2.3) (\<lambda>p. Inr (pynum_scale 0.23 p))
      else if m < 2 then float_pow m 4
      else bindE (float_pow m 3.5) (\<lambda>p. Inr (pynum_scale 1.4 p)))"

text \<open>\<^verbatim>\<open>update_stellar_properties\<close>, statement by statement: luminosity, temperature,
  base radius, radius, then \<^verbatim>\<open>determine_stage\<close> and \<^verbatim>\<open>update_expansion_factor\<close>.\<close>

definition update_stellar_properties :: "StarPhysics \<Rightarrow> error + StarPhysics" where
  "update_stellar_properties s =
     bindE (mass_luminosity (current_mass s)) (\<lambda>lum.
     bindE (pynum_pow lum 0.25) (\<lambda>q.
     bindE (calculate_base_radius s) (\<lambda>base_radius.
       let s1 = s\<lparr>luminosity := lum,
                  temperature := pynum_scale 5778 q,
                  radius := pynum_scale (expansion_factor s) base_radius\<rparr>
       in bindE (determine_stage s1) update_expansion_factor)))"

text \<open>\<^verbatim>\<open>update\<close>. The sum \<^verbatim>\<open>self.age += delta_time\<close> is rounded. In the Main Sequence branch \<^verbatim>\<open>max(0, self.current_h2)\<close> raises if the
  consumption rate, and with it the fuel, has become complex.\<close>

definition update :: "real \<Rightarrow> StarPhysics \<Rightarrow> error + StarPhysics" where
  "update delta_time s =
     (let s1 = s\<lparr>age := fl (age s + delta_time)\<rparr>
      in bindE
           (if stage s1 = MainSequence then
              bindE (float_pow (current_mass s1) 3.5) (\<lambda>p.
                case p of
                  PyComplex z \<Rightarrow> Inl TypeError
                | PyFloat w \<Rightarrow>
                    (let h2_consumption_rate = 0.1 * w / 10 ^ 10
                     in Inr (s1\<lparr>current_h2 :=
                               max 0 (current_h2 s1 - h2_consumption_rate * delta_time)\<rparr>)))
            else Inr s1)
           (\<lambda>s2.
              let s3 = (if stage s2 = RedGiant then
                          (let mass_loss_rate = (1 / 10 ^ 11) * current_mass s2
                           in s2\<lparr>current_mass := current_mass s2 - mass_loss_rate * delta_time\<rparr>)
                        else s2)
              in update_stellar_properties s3))"

text \<open>\<^verbatim>\<open>__init__\<close>.\<close>

definition StarPhysics_init :: "real \<Rightarrow> real \<Rightarrow> error + StarPhysics" where
  "StarPhysics_init mass h2 =
     bindE (update_stellar_properties
              \<lparr>initial_mass = mass, current_mass = mass, h2_percentage = h2, current_h2 = h2,
               age = 0, luminosity = PyFloat 0, temperature = PyFloat 0, radius = PyFloat 0,
               initial_radius = PyFloat 0, stage = Protostar, expansion_factor = 1.0\<rparr>)
       (\<lambda>s. Inr (s\<lparr>initial_radius := radius s\<rparr>))"

text \<open>\<^verbatim>\<open>get_emission\<close>: \<^verbatim>\<open>min(1.0, 0.2 + (np.log10(self.luminosity) / 5))\<close>. The logarithm
  of \<^verbatim>\<open>0.0\<close> is \<^verbatim>\<open>-inf\<close>, that of a negative float is \<^verbatim>\<open>nan\<close> (and \<^verbatim>\<open>min(1.0, nan)\<close> is
  \<^verbatim>\<open>1.0\<close>). The logarithm of a complex is the complex logarithm over \<open>ln 10\<close>; \<^verbatim>\<open>min\<close>
  then asks numpy whether the complex sum is less than \<^verbatim>\<open>1.0\<close>, which numpy decides
  lexicographically, and returns the complex if so and \<^verbatim>\<open>1.0\<close> otherwise.\<close>

definition get_emission :: "StarPhysics \<Rightarrow> error + pyvalue" where
  "get_emission s =
     (case luminosity s of
        PyComplex z \<Rightarrow>
          if z = 0 then Inr ComplexNegInf
          else
            (let e = Complex (0.2 + (log 10 (cmod z) / 5)) (Arg z / ln 10 / 5)
             in if Re e < 1.0 \<or> (Re e = 1.0 \<and> Im e < 0) then Inr (ComplexValue e)
                else Inr (Finite 1.0))
      | PyFloat l \<Rightarrow>
          if 0 < l then Inr (Finite (min 1.0 (0.2 + (log 10 l / 5))))
          else if l = 0 then Inr NegInf
          else Inr (Finite 1.0))"

subsection \<open>Runs of the host loop\<close>

text \<open>The loop of \<^verbatim>\<open>main\<close> calls \<^verbatim>\<open>update\<close> once per tick; an exception ends the run.\<close>

fun run :: "real list \<Rightarrow> StarPhysics \<Rightarrow> error + StarPhysics" where
  "run [] s = Inr s"
| "run (dt # dts) s = bindE (update dt s) (run dts)"

definition simulate :: "real \<Rightarrow> real \<Rightarrow> real list \<Rightarrow> error + StarPhysics" where
  "simulate mass h2 dts = bindE (StarPhysics_init mass h2) (run dts)"

subsection \<open>The transition rule in the words of the specification\<close>

text \<open>The specification states the rule as a cascade of five cases over the previous
  stage, the age, the current mass and the current fuel fraction, with the formation
  time \<open>formationTime(m) = 50000/m\<close> of the initial mass \<open>m\<close>: one division, in double
  precision. Both are written down here from the specification, to be compared
  with \<^verbatim>\<open>determine_stage\<close>; the cascade takes the formation time as its last argument.\<close>

definition formationTime :: "real \<Rightarrow> real" where
  "formationTime m = fl (50000 / m)"

definition stage_cascade :: "stage \<Rightarrow> real \<Rightarrow> real \<Rightarrow> real \<Rightarrow> real \<Rightarrow> stage" where
  "stage_cascade old a m f ft =
     (if a < ft then Protostar
      else if f > 0.1 then MainSequence
      else if m > 1.44 then (if old = Supernova then Supernova else RedGiant)
      else if old \<noteq> WhiteDwarf then RedGiant
      else WhiteDwarf)"

subsection \<open>Invariants of the states a run visits\<close>

text \<open>Proof devices. The first relates stage, fuel and mass: fuel is burnt only on the
  Main Sequence and mass is lost only as a Red Giant, a stage entered only once the fuel
  is at most \<open>0.1\<close>; a star that is or was on the Main Sequence started with more fuel
  than \<open>0.1\<close>; and the age is a double. The second says that the derived fields are those of the last
  recomputation, which therefore returns again.\<close>

definition reach_inv :: "StarPhysics \<Rightarrow> bool" where
  "reach_inv s \<longleftrightarrow>
     (stage s = MainSequence \<longrightarrow> 0.1 < current_h2 s) \<and>
     (stage s = RedGiant \<longrightarrow> current_h2 s \<le> 0.1) \<and>
     (0.1 < current_h2 s \<longrightarrow> current_mass s = initial_mass s) \<and>
     (0.1 < current_h2 s \<longrightarrow> 0.1 < h2_percentage s) \<and>
     stage s \<noteq> WhiteDwarf \<and> stage s \<noteq> Supernova \<and>
     fl (age s) = age s"

text \<open>The magnitude of a number, to bound what a power returns.\<close>

definition pynum_abs :: "pynum \<Rightarrow> real" where
  "pynum_abs n = (case n of PyFloat x \<Rightarrow> \<bar>x\<bar> | PyComplex z \<Rightarrow> cmod z)"


section \<open>Basic facts about the embedding\<close>

subsection \<open>Doubles\<close>

text \<open>The value of \<open>fl\<close> at a number whose binary exponent is known, and the values
  that the runs below need.\<close>

lemma fl_eval:
  assumes "2 powi e \<le> \<bar>x\<bar>" "\<bar>x\<bar> < 2 powi (e + 1)" "- 1022 \<le> e"
  shows "fl x = of_int (round_half_even (x / 2 powi (e - 52))) * 2 powi (e - 52)"
proof -
  have p: "(0::real) < 2 powi e" by simp
  with assms(1) have "0 < \<bar>x\<bar>" by linarith
  then have x: "x \<noteq> 0" "0 < \<bar>x\<bar>" by auto
  have "(2::real) powr (of_int e) = 2 powi e" "(2::real) powr (of_int e + 1) = 2 powi (e + 1)"
    using powr_real_of_int'[of "2::real" e] powr_real_of_int'[of "2::real" "e + 1"] by simp_all
  with assms(1,2) have "\<lfloor>log 2 \<bar>x\<bar>\<rfloor> = e"
    using floor_log_eq_powr_iff[of "\<bar>x\<bar>" 2 e] x(2) by simp
  with assms(3) x(1) show ?thesis by (simp add: fl_def Let_def max_def)
qed

lemma round_half_even_of_int [simp]: "round_half_even (of_int k) = k"
  by (simp add: round_half_even_def)

lemma round_half_even_numeral [simp]: "round_half_even (numeral n) = numeral n"
  using round_half_even_of_int[of "numeral n"] by simp

lemma round_half_even_neg_numeral [simp]: "round_half_even (- numeral n) = - numeral n"
  using round_half_even_of_int[of "- numeral n"] by simp

text \<open>Rounding is odd and monotone, leaves a double alone, and so is idempotent.\<close>

lemma round_half_even_mono:
  assumes "r \<le> s"
  shows "round_half_even r \<le> round_half_even s"
proof (cases "\<lfloor>r\<rfloor> = \<lfloor>s\<rfloor>")
  case True
  with assms show ?thesis by (auto simp: round_half_even_def Let_def)
next
  case False
  with floor_mono[OF assms] have "\<lfloor>r\<rfloor> < \<lfloor>s\<rfloor>" by linarith
  moreover have "round_half_even r \<le> \<lfloor>r\<rfloor> + 1" by (simp add: round_half_even_def Let_def)
  moreover have "\<lfloor>s\<rfloor> \<le> round_half_even s" by (simp add: round_half_even_def Let_def)
  ultimately show ?thesis by linarith
qed

lemma round_half_even_minus: "round_half_even (- r) = - round_half_even r"
proof (cases "r = of_int \<lfloor>r\<rfloor>")
  case True
  then obtain k where "r = of_int k" ..
  then have "- r = of_int (- k)" by simp
  then have "round_half_even (- r) = - k" by (simp only: round_half_even_of_int)
  with \<open>r = of_int k\<close> show ?thesis by simp
next
  case False
  then have f: "\<lfloor>- r\<rfloor> = - \<lfloor>r\<rfloor> - 1" by (simp add: floor_minus ceiling_altdef)
  have d: "- r - of_int \<lfloor>- r\<rfloor> = 1 - (r - of_int \<lfloor>r\<rfloor>)" by (simp add: f)
  show ?thesis
    unfolding round_half_even_def Let_def d unfolding f
    by auto
qed

lemma power_int_two_less_cancel:
  assumes "(2::real) powi m < 2 powi n"
  shows "m < n"
proof (rule ccontr)
  assume "\<not> m < n"
  then have "n \<le> m" by simp
  then have "(2::real) powi n \<le> 2 powi m" by (rule power_int_increasing) simp
  with assms show False by simp
qed

lemma fl_exponent:
  obtains E where "- 1022 \<le> E" "\<bar>x\<bar> < 2 powi (E + 1)" "E = - 1022 \<or> 2 powi E \<le> \<bar>x\<bar>"
    "fl x = of_int (round_half_even (x / 2 powi (E - 52))) * 2 powi (E - 52)"
proof (cases "x = 0")
  case True
  have "round_half_even 0 = 0" using round_half_even_of_int[of 0] by simp
  then show ?thesis by (intro that[of "- 1022"]) (simp_all add: True fl_def)
next
  case False
  define e where "e = \<lfloor>log 2 \<bar>x\<bar>\<rfloor>"
  have p: "(2::real) powr (of_int e) = 2 powi e" "(2::real) powr (of_int (e + 1)) = 2 powi (e + 1)"
    using powr_real_of_int'[of "2::real" e] powr_real_of_int'[of "2::real" "e + 1"] by simp_all
  from False have "0 < \<bar>x\<bar>" by simp
  from floor_log_eq_powr_iff[OF this, of 2 e] p
  have b: "2 powi e \<le> \<bar>x\<bar>" "\<bar>x\<bar> < 2 powi (e + 1)" by (simp_all add: e_def)
  show ?thesis
  proof (cases "- 1022 \<le> e")
    case True
    from fl_eval[OF b True] b True show ?thesis by (intro that[of e]) simp_all
  next
    case F: False
    then have "e + 1 \<le> - 1021" by simp
    then have "(2::real) powi (e + 1) \<le> 2 powi (- 1021)" by (rule power_int_increasing) simp
    with b(2) have "\<bar>x\<bar> < 2 powi (- 1022 + 1)" by simp
    moreover from F have "max e (- 1022) = - 1022" by simp
    then have "fl x = of_int (round_half_even (x / 2 powi (- 1022 - 52))) * 2 powi (- 1022 - 52)"
      using False by (simp add: fl_def Let_def e_def[symmetric])
    ultimately show ?thesis by (intro that[of "- 1022"]) simp_all
  qed
qed

lemma fl_minus: "fl (- x) = - fl x"
  by (simp add: fl_def Let_def round_half_even_minus)

lemma fl_exact:
  assumes "\<bar>k\<bar> < 2 ^ 53" "- 1074 \<le> j"
  shows "fl (of_int k * 2 powi j) = of_int k * 2 powi j"
proof -
  let ?x = "of_int k * 2 powi j :: real"
  obtain E where E: "- 1022 \<le> E" "E = - 1022 \<or> 2 powi E \<le> \<bar>?x\<bar>"
    "fl ?x = of_int (round_half_even (?x / 2 powi (E - 52))) * 2 powi (E - 52)"
    by (rule fl_exponent[of ?x])
  have "E \<le> j + 52"
  proof (cases "E = - 1022")
    case True
    with assms(2) show ?thesis by simp
  next
    case False
    with E(2) have "2 powi E \<le> \<bar>?x\<bar>" by simp
    also have "\<bar>?x\<bar> = of_int \<bar>k\<bar> * 2 powi j" by (simp add: abs_mult)
    also have "\<dots> < 2 ^ 53 * 2 powi j"
    proof -
      from assms(1) have "(of_int \<bar>k\<bar> :: real) < of_int (2 ^ 53)" by (simp only: of_int_less_iff)
      then show ?thesis by simp
    qed
    also have "\<dots> = 2 powi (j + 53)" by (simp add: power_int_add)
    finally have "E < j + 53" by (rule power_int_two_less_cancel)
    then show ?thesis by simp
  qed
  then have "0 \<le> j - (E - 52)" by simp
  then obtain n where n: "j - (E - 52) = int n" by (rule nonneg_int_cases)
  have "?x / 2 powi (E - 52) = of_int k * 2 powi (j - (E - 52))" by (simp add: power_int_diff)
  also have "\<dots> = of_int (k * 2 ^ n)" by (simp add: n)
  finally have "round_half_even (?x / 2 powi (E - 52)) = k * 2 ^ n"
    by (simp only: round_half_even_of_int)
  with E(3) have "fl ?x = of_int (k * 2 ^ n) * 2 powi (E - 52)" by simp
  also have "\<dots> = of_int k * (2 powi (int n) * 2 powi (E - 52))" by simp
  also have "2 powi (int n) * 2 powi (E - 52) = (2::real) powi j"
    unfolding n[symmetric] by (simp add: power_int_add[symmetric])
  finally show ?thesis .
qed

lemma fl_of_int:
  assumes "\<bar>k\<bar> < 2 ^ 53"
  shows "fl (of_int k) = of_int k"
  using fl_exact[OF assms, of 0] by simp

lemma fl_numeral [simp]:
  "(numeral k :: int) < 9007199254740992 \<Longrightarrow> fl (numeral k) = numeral k"
  using fl_of_int[of "numeral k"] by simp

lemma fl_neg_numeral [simp]:
  "(numeral k :: int) < 9007199254740992 \<Longrightarrow> fl (- numeral k) = - numeral k"
  using fl_of_int[of "- numeral k"] by simp

lemma fl_0 [simp]: "fl 0 = 0"
  by (simp add: fl_def)

lemma fl_mono_nonneg:
  assumes "0 \<le> x" "x \<le> y"
  shows "fl x \<le> fl y"
proof -
  obtain E where E: "- 1022 \<le> E" "\<bar>x\<bar> < 2 powi (E + 1)" "E = - 1022 \<or> 2 powi E \<le> \<bar>x\<bar>"
    "fl x = of_int (round_half_even (x / 2 powi (E - 52))) * 2 powi (E - 52)"
    by (rule fl_exponent)
  obtain F where F: "- 1022 \<le> F" "\<bar>y\<bar> < 2 powi (F + 1)" "F = - 1022 \<or> 2 powi F \<le> \<bar>y\<bar>"
    "fl y = of_int (round_half_even (y / 2 powi (F - 52))) * 2 powi (F - 52)"
    by (rule fl_exponent)
  from assms have a: "\<bar>x\<bar> = x" "\<bar>y\<bar> = y" by simp_all
  have EF: "E \<le> F"
  proof (rule ccontr)
    assume "\<not> E \<le> F"
    with F(1) have n: "F + 1 \<le> E" "E \<noteq> - 1022" by simp_all
    with E(3) a have "2 powi E \<le> x" by simp
    also note assms(2)
    also from F(2) a have "y < 2 powi (F + 1)" by simp
    also from n(1) have "(2::real) powi (F + 1) \<le> 2 powi E" by (rule power_int_increasing) simp
    finally show False by simp
  qed
  show ?thesis
  proof (cases "E = F")
    case True
    from assms(2) have "x / 2 powi (E - 52) \<le> y / 2 powi (E - 52)"
      by (simp add: divide_right_mono)
    from round_half_even_mono[OF this] show ?thesis
      unfolding E(4) F(4) True[symmetric] by (simp add: mult_right_mono)
  next
    case False
    with EF E(1) have lt: "E + 1 \<le> F" "F \<noteq> - 1022" by simp_all
    with F(3) a have "2 powi F \<le> y" by simp
    then have "2 powi F / 2 powi (F - 52) \<le> y / 2 powi (F - 52)"
      by (simp add: divide_right_mono)
    moreover have "(2::real) powi F / 2 powi (F - 52) = of_int (2 ^ 52)"
      by (simp add: power_int_diff)
    ultimately have "of_int (2 ^ 52) \<le> y / 2 powi (F - 52)" by simp
    from round_half_even_mono[OF this] have "2 ^ 52 \<le> round_half_even (y / 2 powi (F - 52))"
      by (simp only: round_half_even_of_int)
    then have "(of_int (2 ^ 52) :: real) \<le> of_int (round_half_even (y / 2 powi (F - 52)))"
      by (simp only: of_int_le_iff)
    then have "of_int (2 ^ 52) * 2 powi (F - 52) \<le> fl y"
      unfolding F(4) by (simp add: mult_right_mono)
    moreover have "of_int (2 ^ 52) * 2 powi (F - 52) = (2::real) powi F"
      by (simp add: power_int_diff)
    ultimately have y: "2 powi F \<le> fl y" by simp
    from E(2) a have "x / 2 powi (E - 52) \<le> 2 powi (E + 1) / 2 powi (E - 52)"
      by (simp add: divide_right_mono)
    moreover have "(2::real) powi (E + 1) / 2 powi (E - 52) = of_int (2 ^ 53)"
      by (simp add: power_int_diff power_int_add)
    ultimately have "x / 2 powi (E - 52) \<le> of_int (2 ^ 53)" by simp
    from round_half_even_mono[OF this] have "round_half_even (x / 2 powi (E - 52)) \<le> 2 ^ 53"
      by (simp only: round_half_even_of_int)
    then have "(of_int (round_half_even (x / 2 powi (E - 52))) :: real) \<le> of_int (2 ^ 53)"
      by (simp only: of_int_le_iff)
    then have "fl x \<le> of_int (2 ^ 53) * 2 powi (E - 52)"
      unfolding E(4) by (simp add: mult_right_mono)
    moreover have "of_int (2 ^ 53) * 2 powi (E - 52) = (2::real) powi (E + 1)"
      by (simp add: power_int_diff power_int_add)
    ultimately have "fl x \<le> 2 powi (E + 1)" by simp
    also from lt(1) have "(2::real) powi (E + 1) \<le> 2 powi F" by (rule power_int_increasing) simp
    also note y
    finally show ?thesis .
  qed
qed

lemma fl_nonneg:
  assumes "0 \<le> x"
  shows "0 \<le> fl x"
  using fl_mono_nonneg[OF order_refl assms] by simp

lemma fl_mono:
  assumes "x \<le> y"
  shows "fl x \<le> fl y"
proof (cases "0 \<le> x")
  case True
  from fl_mono_nonneg[OF this assms] show ?thesis .
next
  case x: False
  show ?thesis
  proof (cases "0 \<le> y")
    case True
    from x have "0 \<le> - x" by simp
    from fl_nonneg[OF this] have "fl x \<le> 0" by (simp add: fl_minus)
    with fl_nonneg[OF True] show ?thesis by simp
  next
    case False
    then have "0 \<le> - y" by simp
    moreover from assms have "- y \<le> - x" by simp
    ultimately have "fl (- y) \<le> fl (- x)" by (rule fl_mono_nonneg)
    then show ?thesis by (simp add: fl_minus)
  qed
qed

lemma fl_idem [simp]: "fl (fl x) = fl x"
proof -
  obtain E where E: "- 1022 \<le> E" "\<bar>x\<bar> < 2 powi (E + 1)"
    "fl x = of_int (round_half_even (x / 2 powi (E - 52))) * 2 powi (E - 52)"
    by (rule fl_exponent)
  define K where "K = round_half_even (x / 2 powi (E - 52))"
  have p: "(2::real) powi (E + 1) / 2 powi (E - 52) = of_int (2 ^ 53)"
    by (simp add: power_int_diff power_int_add)
  from E(2) have "x < 2 powi (E + 1)" "- (2 powi (E + 1)) < x" by (simp_all add: abs_less_iff)
  then have b: "x \<le> 2 powi (E + 1)" "- (2 powi (E + 1)) \<le> x" by simp_all
  have u: "(0::real) \<le> 2 powi (E - 52)" by simp
  from divide_right_mono[OF b(1) u] divide_right_mono[OF b(2) u]
  have "x / 2 powi (E - 52) \<le> 2 powi (E + 1) / 2 powi (E - 52)"
    "- (2 powi (E + 1)) / 2 powi (E - 52) \<le> x / 2 powi (E - 52)" .
  then have "x / 2 powi (E - 52) \<le> 2 powi (E + 1) / 2 powi (E - 52)"
    "- (2 powi (E + 1) / 2 powi (E - 52)) \<le> x / 2 powi (E - 52)"
    by (simp_all only: minus_divide_left)
  then have "x / 2 powi (E - 52) \<le> of_int (2 ^ 53)" "of_int (- (2 ^ 53)) \<le> x / 2 powi (E - 52)"
    unfolding p by simp_all
  from round_half_even_mono[OF this(1)] round_half_even_mono[OF this(2)]
  have K: "K \<le> 2 ^ 53" "- (2 ^ 53) \<le> K"
    unfolding K_def by (simp_all only: round_half_even_of_int)
  from E(1) have j: "- 1074 \<le> E - 52" "- 1074 \<le> E - 51" by simp_all
  have f: "fl x = of_int K * 2 powi (E - 52)" by (simp add: E(3) K_def)
  consider "\<bar>K\<bar> < 2 ^ 53" | "K = 2 ^ 53" | "K = - (2 ^ 53)" using K by linarith
  then show ?thesis
  proof cases
    case 1
    from fl_exact[OF 1 j(1)] show ?thesis by (simp only: f)
  next
    case 2
    have "of_int K * 2 powi (E - 52) = of_int (2 ^ 52) * (2::real) powi (E - 51)"
      by (simp add: 2 power_int_diff)
    moreover have "fl (of_int (2 ^ 52) * 2 powi (E - 51)) = of_int (2 ^ 52) * 2 powi (E - 51)"
      by (rule fl_exact[OF _ j(2)]) simp
    ultimately show ?thesis by (simp only: f)
  next
    case 3
    have "of_int K * 2 powi (E - 52) = of_int (- (2 ^ 52)) * (2::real) powi (E - 51)"
      by (simp add: 3 power_int_diff)
    moreover have "fl (of_int (- (2 ^ 52)) * 2 powi (E - 51)) = of_int (- (2 ^ 52)) * 2 powi (E - 51)"
      by (rule fl_exact[OF _ j(2)]) simp
    ultimately show ?thesis by (simp only: f)
  qed
qed

lemma fl_le_representable:
  assumes "x \<le> a" "fl a = a"
  shows "fl x \<le> a"
  using fl_mono[OF assms(1)] assms(2) by simp

lemma fl_1 [simp]: "fl 1 = 1"
  using fl_eval[of 0 1] by simp

lemma fl_neg_1 [simp]: "fl (- 1) = - 1"
  using fl_eval[of 0 "- 1"] by simp

lemma fl_half [simp]: "fl (1 / 2) = 1 / 2"
  using fl_eval[of "- 1" "1 / 2"] by simp

lemma fl_10 [simp]: "fl 10 = 10"
  using fl_eval[of 3 10] by simp

lemma fl_25000 [simp]: "fl 25000 = 25000"
  using fl_eval[of 14 25000] by simp

lemma fl_50000 [simp]: "fl 50000 = 50000"
  using fl_eval[of 15 50000] by simp

lemma fl_neg_50000 [simp]: "fl (- 50000) = - 50000"
  using fl_eval[of 15 "- 50000"] by simp

lemma fl_500000 [simp]: "fl 500000 = 500000"
  using fl_eval[of 18 500000] by simp

lemma fl_third: "fl (1 / 3) = 6004799503160661 / 2 ^ 54"
  using fl_eval[of "- 2" "1 / 3"] by (simp add: round_half_even_def)

lemma fl_50000_third: "fl (50000 * (6004799503160661 / 2 ^ 54)) = 4581298449066666 / 2 ^ 38"
  using fl_eval[of 14 "50000 * (6004799503160661 / 2 ^ 54)"]
  by (simp add: round_half_even_def)

lemma fl_50000_div_3: "fl (50000 / 3) = 4581298449066667 / 2 ^ 38"
  using fl_eval[of 14 "50000 / 3"] by (simp add: round_half_even_def)

lemmas star_defs = bindE_def pynum_pow_def pynum_scale_def
  get_formation_time_def get_main_sequence_lifetime_def calculate_base_radius_def
  handle_stage_transition_def new_stage_def determine_stage_def update_expansion_factor_def
  mass_luminosity_def update_stellar_properties_def update_def StarPhysics_init_def
  simulate_def get_emission_def

subsection \<open>What each method leaves alone\<close>

text \<open>Every method returns its argument with a few fields replaced; the lemmas below name
  the fields that survive and the values of the others.\<close>

lemma bindE_Inr_iff: "bindE r f = Inr y \<longleftrightarrow> (\<exists>v. r = Inr v \<and> f v = Inr y)"
  by (cases r) (simp_all add: bindE_def)

lemma bindE_Inr [simp]: "bindE (Inr v) f = f v"
  by (simp add: bindE_def)

lemma bindE_Inl [simp]: "bindE (Inl e) f = Inl e"
  by (simp add: bindE_def)

lemma get_formation_time_Inr:
  "get_formation_time s = Inr ft \<longleftrightarrow> initial_mass s \<noteq> 0 \<and> ft = fl (50000 * fl (1 / initial_mass s))"
  by (auto simp: get_formation_time_def)

lemma determine_stage_eq:
  "determine_stage s =
     (if initial_mass s = 0 then Inl ZeroDivisionError
      else Inr ((if stage s \<noteq> new_stage (fl (50000 * fl (1 / initial_mass s))) s
                 then handle_stage_transition (stage s)
                        (new_stage (fl (50000 * fl (1 / initial_mass s))) s) s
                 else s)\<lparr>stage := new_stage (fl (50000 * fl (1 / initial_mass s))) s\<rparr>))"
  by (simp add: determine_stage_def get_formation_time_def Let_def)

lemma determine_stage_fields:
  assumes "determine_stage s = Inr s'"
  shows "initial_mass s \<noteq> 0" "initial_mass s' = initial_mass s"
    "current_mass s' = current_mass s" "h2_percentage s' = h2_percentage s"
    "current_h2 s' = current_h2 s" "age s' = age s" "luminosity s' = luminosity s"
    "temperature s' = temperature s" "radius s' = radius s"
    "initial_radius s' = initial_radius s"
    "stage s' = new_stage (fl (50000 * fl (1 / initial_mass s))) s"
  using assms
  by (auto simp: determine_stage_eq handle_stage_transition_def split: if_splits)

lemma update_expansion_factor_fields_aux:
  "case update_expansion_factor s of Inl e \<Rightarrow> True
   | Inr s' \<Rightarrow> initial_mass s' = initial_mass s \<and>
    current_mass s' = current_mass s \<and> h2_percentage s' = h2_percentage s \<and>
    current_h2 s' = current_h2 s \<and> age s' = age s \<and> luminosity s' = luminosity s \<and>
    temperature s' = temperature s \<and> radius s' = radius s \<and>
    initial_radius s' = initial_radius s \<and> stage s' = stage s"
  by (simp add: update_expansion_factor_def bindE_def Let_def
        split: stage.split sum.split pynum.split)

lemma update_expansion_factor_fields:
  assumes "update_expansion_factor s = Inr s'"
  shows "initial_mass s' = initial_mass s"
    "current_mass s' = current_mass s" "h2_percentage s' = h2_percentage s"
    "current_h2 s' = current_h2 s" "age s' = age s" "luminosity s' = luminosity s"
    "temperature s' = temperature s" "radius s' = radius s"
    "initial_radius s' = initial_radius s" "stage s' = stage s"
  using update_expansion_factor_fields_aux[of s] assms by simp_all

lemma new_stage_derived [simp]:
  "new_stage ft (s\<lparr>luminosity := l, temperature := t, radius := r\<rparr>) = new_stage ft s"
  by (simp add: new_stage_def)

lemma update_stellar_properties_steps:
  assumes "update_stellar_properties s = Inr s'"
  obtains lum q b s2 where
    "mass_luminosity (current_mass s) = Inr lum" "pynum_pow lum 0.25 = Inr q"
    "calculate_base_radius s = Inr b"
    "determine_stage (s\<lparr>luminosity := lum, temperature := pynum_scale 5778 q,
        radius := pynum_scale (expansion_factor s) b\<rparr>) = Inr s2"
    "update_expansion_factor s2 = Inr s'"
  using assms by (auto simp: update_stellar_properties_def bindE_Inr_iff Let_def)

lemma update_stellar_properties_fields:
  assumes "update_stellar_properties s = Inr s'"
  shows "initial_mass s \<noteq> 0" "initial_mass s' = initial_mass s"
    "current_mass s' = current_mass s" "h2_percentage s' = h2_percentage s"
    "current_h2 s' = current_h2 s" "age s' = age s"
    "initial_radius s' = initial_radius s"
    "stage s' = new_stage (fl (50000 * fl (1 / initial_mass s))) s"
    "mass_luminosity (current_mass s) = Inr (luminosity s')"
    "bindE (pynum_pow (luminosity s') 0.25) (\<lambda>q. Inr (pynum_scale 5778 q)) = Inr (temperature s')"
    "bindE (calculate_base_radius s) (\<lambda>b. Inr (pynum_scale (expansion_factor s) b)) = Inr (radius s')"
proof -
  from assms obtain lum q b s2 where
    l: "mass_luminosity (current_mass s) = Inr lum" and q: "pynum_pow lum 0.25 = Inr q"
    and b: "calculate_base_radius s = Inr b"
    and d: "determine_stage (s\<lparr>luminosity := lum, temperature := pynum_scale 5778 q,
        radius := pynum_scale (expansion_factor s) b\<rparr>) = Inr s2"
    and u: "update_expansion_factor s2 = Inr s'"
    by (rule update_stellar_properties_steps)
  note D = determine_stage_fields[OF d] and U = update_expansion_factor_fields[OF u]
  from D(1) show "initial_mass s \<noteq> 0" by simp
  from D(2) U(1) show "initial_mass s' = initial_mass s" by simp
  from D(3) U(2) show "current_mass s' = current_mass s" by simp
  from D(4) U(3) show "h2_percentage s' = h2_percentage s" by simp
  from D(5) U(4) show "current_h2 s' = current_h2 s" by simp
  from D(6) U(5) show "age s' = age s" by simp
  from D(10) U(9) show "initial_radius s' = initial_radius s" by simp
  from D(11) U(10) show "stage s' = new_stage (fl (50000 * fl (1 / initial_mass s))) s" by simp
  from D(7) U(6) l show "mass_luminosity (current_mass s) = Inr (luminosity s')" by simp
  from D(7) U(6) D(8) U(7) q
  show "bindE (pynum_pow (luminosity s') 0.25) (\<lambda>q. Inr (pynum_scale 5778 q)) = Inr (temperature s')"
    by simp
  from D(9) U(8) b
  show "bindE (calculate_base_radius s) (\<lambda>b. Inr (pynum_scale (expansion_factor s) b)) = Inr (radius s')"
    by simp
qed

subsection \<open>Ticks and runs\<close>

lemma new_stage_cascade:
  "new_stage ft s = stage_cascade (stage s) (age s) (current_mass s) (current_h2 s) ft"
  by (simp add: new_stage_def stage_cascade_def)

lemma run_append: "run (xs @ ys) s = bindE (run xs s) (run ys)"
  by (induction xs arbitrary: s) (simp_all add: bindE_def split: sum.splits)

lemma bindE_return [simp]: "bindE r Inr = r"
  by (cases r) simp_all

lemma run_Nil_fun [simp]: "run [] = Inr"
  by (rule ext) simp

lemma run_single [simp]: "run [dt] = update dt"
  by (rule ext) simp

lemma simulate_snoc: "simulate mass h2 (dts @ [dt]) = bindE (simulate mass h2 dts) (update dt)"
  by (cases "StarPhysics_init mass h2") (simp_all add: simulate_def run_append)

lemma update_steps:
  assumes "update dt s = Inr s'"
  obtains s3 where "update_stellar_properties s3 = Inr s'"
    "initial_mass s3 = initial_mass s" "h2_percentage s3 = h2_percentage s"
    "age s3 = fl (age s + dt)" "stage s3 = stage s" "expansion_factor s3 = expansion_factor s"
    "current_mass s3 = (if stage s = RedGiant
        then current_mass s - (1 / 10 ^ 11) * current_mass s * dt else current_mass s)"
    "stage s \<noteq> MainSequence \<Longrightarrow> current_h2 s3 = current_h2 s"
    "stage s = MainSequence \<Longrightarrow> \<exists>w. float_pow (current_mass s) 3.5 = Inr (PyFloat w) \<and>
        current_h2 s3 = max 0 (current_h2 s - 0.1 * w / 10 ^ 10 * dt)"
proof (cases "stage s = MainSequence")
  case False
  with assms show ?thesis
    by (intro that[of "if stage s = RedGiant then s\<lparr>age := fl (age s + dt), current_mass := current_mass s - (1 / 10 ^ 11) * current_mass s * dt\<rparr> else s\<lparr>age := fl (age s + dt)\<rparr>"])
       (auto simp: update_def Let_def split: if_splits)
next
  case True
  with assms obtain p where p: "float_pow (current_mass s) 3.5 = Inr p"
    by (cases "float_pow (current_mass s) 3.5") (auto simp: update_def Let_def)
  with assms True obtain w where w: "p = PyFloat w"
    by (cases p) (auto simp: update_def Let_def)
  from assms True p w show ?thesis
    by (intro that[of "s\<lparr>age := fl (age s + dt), current_h2 := max 0 (current_h2 s - 0.1 * w / 10 ^ 10 * dt)\<rparr>"])
       (auto simp: update_def Let_def)
qed

lemma update_fields:
  assumes "update dt s = Inr s'"
  shows "initial_mass s \<noteq> 0" "initial_mass s' = initial_mass s"
    "h2_percentage s' = h2_percentage s" "age s' = fl (age s + dt)"
    "current_mass s' = (if stage s = RedGiant
        then current_mass s - (1 / 10 ^ 11) * current_mass s * dt else current_mass s)"
    "stage s \<noteq> MainSequence \<Longrightarrow> current_h2 s' = current_h2 s"
    "stage s' = stage_cascade (stage s) (age s') (current_mass s') (current_h2 s')
                  (fl (50000 * fl (1 / initial_mass s')))"
proof -
  from assms obtain s3 where u: "update_stellar_properties s3 = Inr s'"
    and f: "initial_mass s3 = initial_mass s" "h2_percentage s3 = h2_percentage s"
    "age s3 = fl (age s + dt)" "stage s3 = stage s" "expansion_factor s3 = expansion_factor s"
    "current_mass s3 = (if stage s = RedGiant
        then current_mass s - (1 / 10 ^ 11) * current_mass s * dt else current_mass s)"
    "stage s \<noteq> MainSequence \<Longrightarrow> current_h2 s3 = current_h2 s"
    by (rule update_steps) blast
  note U = update_stellar_properties_fields[OF u]
  from U(1) f show "initial_mass s \<noteq> 0" by simp
  from U(2) f show "initial_mass s' = initial_mass s" by simp
  from U(4) f show "h2_percentage s' = h2_percentage s" by simp
  from U(6) f show "age s' = fl (age s + dt)" by simp
  from U(3) f show "current_mass s' = (if stage s = RedGiant
        then current_mass s - (1 / 10 ^ 11) * current_mass s * dt else current_mass s)" by simp
  from U(5) f show "stage s \<noteq> MainSequence \<Longrightarrow> current_h2 s' = current_h2 s" by simp
  have "stage s' = stage_cascade (stage s3) (age s3) (current_mass s3) (current_h2 s3)
                     (fl (50000 * fl (1 / initial_mass s3)))"
    using U(8) by (simp add: new_stage_cascade)
  with U f show "stage s' = stage_cascade (stage s) (age s') (current_mass s') (current_h2 s')
                  (fl (50000 * fl (1 / initial_mass s')))"
    by simp
qed

lemma update_fuel:
  assumes "update dt s = Inr s'" "stage s = MainSequence"
  shows "\<exists>w. float_pow (current_mass s) 3.5 = Inr (PyFloat w) \<and>
        current_h2 s' = max 0 (current_h2 s - 0.1 * w / 10 ^ 10 * dt)"
proof -
  from assms(1) obtain s3 where u: "update_stellar_properties s3 = Inr s'"
    and f: "stage s = MainSequence \<Longrightarrow> \<exists>w. float_pow (current_mass s) 3.5 = Inr (PyFloat w) \<and>
        current_h2 s3 = max 0 (current_h2 s - 0.1 * w / 10 ^ 10 * dt)"
    by (rule update_steps) blast
  from update_stellar_properties_fields(5)[OF u] f[OF assms(2)] show ?thesis by simp
qed

lemma stage_cascade_cases:
  assumes "old \<noteq> WhiteDwarf" "old \<noteq> Supernova"
  shows "stage_cascade old a m f ft \<noteq> WhiteDwarf" "stage_cascade old a m f ft \<noteq> Supernova"
    "stage_cascade old a m f ft = MainSequence \<Longrightarrow> 0.1 < f"
    "stage_cascade old a m f ft = RedGiant \<Longrightarrow> f \<le> 0.1"
  using assms by (auto simp: stage_cascade_def split: if_splits)

lemma update_reach_inv:
  assumes "update dt s = Inr s'" "reach_inv s"
  shows "reach_inv s'"
proof -
  note F = update_fields[OF assms(1)]
  from assms(2) have o: "stage s \<noteq> WhiteDwarf" "stage s \<noteq> Supernova"
    by (simp_all add: reach_inv_def)
  have m: "current_mass s' = initial_mass s' \<and> 0.1 < h2_percentage s'"
    if "0.1 < current_h2 s'"
  proof (cases "stage s = MainSequence")
    case True
    with assms(2) have "current_mass s = initial_mass s" "0.1 < h2_percentage s"
      by (simp_all add: reach_inv_def)
    with F True show ?thesis by simp
  next
    case False
    with F(6) that have h: "0.1 < current_h2 s" by simp
    with assms(2) have "current_mass s = initial_mass s" "stage s \<noteq> RedGiant"
      "0.1 < h2_percentage s"
      by (auto simp: reach_inv_def)
    with F show ?thesis by simp
  qed
  from F(4) have "fl (age s') = age s'" by simp
  then show ?thesis
    unfolding reach_inv_def F(7)
    using stage_cascade_cases[OF o, of "age s'" "current_mass s'" "current_h2 s'"
        "fl (50000 * fl (1 / initial_mass s'))"] m
    by blast
qed

lemma init_steps:
  assumes "StarPhysics_init mass h2 = Inr s"
  obtains s0 where "update_stellar_properties
              \<lparr>initial_mass = mass, current_mass = mass, h2_percentage = h2, current_h2 = h2,
               age = 0, luminosity = PyFloat 0, temperature = PyFloat 0, radius = PyFloat 0,
               initial_radius = PyFloat 0, stage = Protostar, expansion_factor = 1.0\<rparr> = Inr s0"
     "s = s0\<lparr>initial_radius := radius s0\<rparr>"
  using assms by (auto simp: StarPhysics_init_def bindE_Inr_iff)

lemma init_fields:
  assumes "StarPhysics_init mass h2 = Inr s"
  shows "mass \<noteq> 0" "initial_mass s = mass" "current_mass s = mass" "h2_percentage s = h2"
    "current_h2 s = h2" "age s = 0"
    "stage s = stage_cascade Protostar 0 mass h2 (fl (50000 * fl (1 / mass)))"
proof -
  from assms obtain s0 where u: "update_stellar_properties
              \<lparr>initial_mass = mass, current_mass = mass, h2_percentage = h2, current_h2 = h2,
               age = 0, luminosity = PyFloat 0, temperature = PyFloat 0, radius = PyFloat 0,
               initial_radius = PyFloat 0, stage = Protostar, expansion_factor = 1.0\<rparr> = Inr s0"
     and s: "s = s0\<lparr>initial_radius := radius s0\<rparr>"
    by (rule init_steps)
  note U = update_stellar_properties_fields[OF u]
  from U(1) show "mass \<noteq> 0" by simp
  from U(2) s show "initial_mass s = mass" by simp
  from U(3) s show "current_mass s = mass" by simp
  from U(4) s show "h2_percentage s = h2" by simp
  from U(5) s show "current_h2 s = h2" by simp
  from U(6) s show "age s = 0" by simp
  from U(8) s show "stage s = stage_cascade Protostar 0 mass h2 (fl (50000 * fl (1 / mass)))"
    by (simp add: new_stage_cascade)
qed

lemma init_reach_inv:
  assumes "StarPhysics_init mass h2 = Inr s"
  shows "reach_inv s"
  unfolding reach_inv_def init_fields[OF assms]
  using stage_cascade_cases[of Protostar 0 mass h2 "fl (50000 * fl (1 / mass))"] by simp

lemma run_reach_inv:
  "run dts s = Inr s' \<Longrightarrow> reach_inv s \<Longrightarrow> reach_inv s'"
proof (induction dts arbitrary: s)
  case Nil
  then show ?case by simp
next
  case (Cons dt dts)
  from Cons.prems(1) obtain s1 where u: "update dt s = Inr s1" and r: "run dts s1 = Inr s'"
    by (auto simp: bindE_Inr_iff)
  from Cons.IH[OF r update_reach_inv[OF u Cons.prems(2)]] show ?case .
qed

lemma run_initial:
  "run dts s = Inr s' \<Longrightarrow> initial_mass s' = initial_mass s \<and> h2_percentage s' = h2_percentage s"
proof (induction dts arbitrary: s)
  case Nil
  then show ?case by simp
next
  case (Cons dt dts)
  from Cons.prems(1) obtain s1 where u: "update dt s = Inr s1" and r: "run dts s1 = Inr s'"
    by (auto simp: bindE_Inr_iff)
  from Cons.IH[OF r] update_fields(2,3)[OF u] show ?case by simp
qed

lemma simulate_steps:
  assumes "simulate mass h2 dts = Inr s"
  obtains s0 where "StarPhysics_init mass h2 = Inr s0" "run dts s0 = Inr s"
  using assms by (auto simp: simulate_def bindE_Inr_iff)

lemma simulate_reach_inv:
  assumes "simulate mass h2 dts = Inr s"
  shows "reach_inv s" "initial_mass s = mass" "h2_percentage s = h2" "mass \<noteq> 0"
proof -
  from assms obtain s0 where i: "StarPhysics_init mass h2 = Inr s0" and r: "run dts s0 = Inr s"
    by (rule simulate_steps)
  from run_reach_inv[OF r init_reach_inv[OF i]] show "reach_inv s" .
  from run_initial[OF r] init_fields[OF i]
  show "initial_mass s = mass" "h2_percentage s = h2" "mass \<noteq> 0" by simp_all
qed

lemma determine_stage_cascade:
  assumes "initial_mass s \<noteq> 0"
  shows "\<exists>s'. determine_stage s = Inr s' \<and>
     stage s' = stage_cascade (stage s) (age s) (current_mass s) (current_h2 s)
                  (fl (50000 * fl (1 / initial_mass s)))"
  using assms by (simp add: determine_stage_eq new_stage_cascade)

subsection \<open>Powers within range\<close>

lemma big_below_overflow: "(10::real) ^ 280 < dbl_overflow"
  by (simp add: dbl_overflow_def)

lemma dbl_overflow_pos: "0 < dbl_overflow" "1 < dbl_overflow"
  by (simp_all add: dbl_overflow_def)

lemma powr_le_pow4:
  fixes x y :: real
  assumes "0 < x" "0 \<le> y" "y \<le> 4"
  shows "x powr y \<le> max 1 (x ^ 4)"
proof (cases "x \<le> 1")
  case True
  with assms have "x powr y \<le> 1" by (intro powr_le1) simp_all
  then show ?thesis by simp
next
  case False
  with assms have "x powr y \<le> x powr 4" by (intro powr_mono) simp_all
  also have "x powr 4 = x ^ 4" using assms(1) by simp
  finally show ?thesis by simp
qed

lemma powr_bounded:
  fixes x y :: real
  assumes "0 < x" "x \<le> 10 ^ 70" "0 \<le> y" "y \<le> 4"
  shows "x powr y \<le> 10 ^ 280"
proof -
  have "x ^ 4 \<le> (10 ^ 70) ^ 4" using assms(1,2) by (intro power_mono) simp_all
  then have "max 1 (x ^ 4) \<le> 10 ^ 280" by simp
  with powr_le_pow4[OF assms(1,3,4)] show ?thesis by linarith
qed

lemma powr_bounded_neg:
  fixes x y :: real
  assumes "1 / 10 ^ 70 \<le> x" "- 4 \<le> y" "y \<le> 0"
  shows "x powr y \<le> 10 ^ 280"
proof -
  from assms(1) have x: "0 < x" by (rule less_le_trans[rotated]) simp
  have "x powr y = inverse x powr (- y)"
    by (simp add: powr_minus inverse_powr)
  moreover have "inverse x \<le> 10 ^ 70"
    using assms(1) x by (simp add: field_simps)
  moreover have "0 < inverse x" using x by simp
  ultimately show ?thesis using powr_bounded[of "inverse x" "- y"] assms(2,3) by simp
qed

lemma float_pow_zero [simp]:
  "float_pow 0 y = (if y < 0 then Inl ZeroDivisionError
                    else if y = 0 then Inr (PyFloat 1) else Inr (PyFloat 0))"
  by (simp add: float_pow_def)

lemma float_pow_pos:
  assumes "0 < x" "x \<le> 10 ^ 70" "0 \<le> y" "y \<le> 4"
  shows "float_pow x y = Inr (PyFloat (x powr y))"
  using powr_bounded[OF assms] big_below_overflow assms(1) by (simp add: float_pow_def)

lemma float_pow_pos_neg_exp:
  assumes "1 / 10 ^ 70 \<le> x" "- 4 \<le> y" "y \<le> 0"
  shows "float_pow x y = Inr (PyFloat (x powr y))"
proof -
  from assms(1) have x: "0 < x" by (rule less_le_trans[rotated]) simp
  with powr_bounded_neg[OF assms] big_below_overflow show ?thesis
    by (simp add: float_pow_def)
qed

lemma float_pow_neg:
  assumes "x < 0" "- (10 ^ 70) \<le> x" "0 \<le> y" "y \<le> 4" "y \<noteq> of_int \<lfloor>y\<rfloor>"
  shows "float_pow x y = Inr (PyComplex (of_real (\<bar>x\<bar> powr y) * cis (pi * y)))"
proof -
  have "\<bar>x\<bar> powr y \<le> 10 ^ 280" using assms by (intro powr_bounded) simp_all
  with big_below_overflow assms(1,5) show ?thesis by (simp add: float_pow_def)
qed

lemma float_pow_neg_neg_exp:
  assumes "x \<le> - (1 / 10 ^ 70)" "- 4 \<le> y" "y \<le> 0" "y \<noteq> of_int \<lfloor>y\<rfloor>"
  shows "float_pow x y = Inr (PyComplex (of_real (\<bar>x\<bar> powr y) * cis (pi * y)))"
proof -
  from assms(1) have x: "x < 0" by (rule le_less_trans) simp
  have "\<bar>x\<bar> powr y \<le> 10 ^ 280" using assms x by (intro powr_bounded_neg) simp_all
  with big_below_overflow x assms(4) show ?thesis by (simp add: float_pow_def)
qed


lemma float_pow_abs:
  assumes "float_pow x y = Inr p"
  shows "pynum_abs p < dbl_overflow"
  using assms dbl_overflow_pos
  by (auto simp: float_pow_def pynum_abs_def norm_mult split: if_splits)

lemma complex_pow_bounded:
  assumes "z \<noteq> 0" "y \<noteq> 0" "cmod z \<le> 10 ^ 70" "0 \<le> y" "y \<le> 4"
  shows "complex_pow z y = Inr (PyComplex (of_real (cmod z powr y) * cis (Arg z * y)))"
proof -
  have "cmod z powr y \<le> 10 ^ 280" using assms by (intro powr_bounded) simp_all
  with big_below_overflow assms(1,2) show ?thesis by (simp add: complex_pow_def)
qed

lemma quarter_below_overflow:
  fixes v :: real
  assumes "0 < v" "v < 2 * dbl_overflow"
  shows "v powr (1 / 4) < dbl_overflow"
proof -
  have "v \<le> (2 ^ 257) ^ 4" using assms(2) by (simp add: dbl_overflow_def)
  then have "v powr (1 / 4) \<le> ((2 ^ 257) ^ 4) powr (1 / 4)"
    using assms(1) by (intro powr_mono2) simp_all
  also have "((2 ^ 257) ^ 4 :: real) powr (1 / 4) = 2 ^ 257"
  proof -
    have "((2 ^ 257) ^ 4 :: real) = (2 ^ 257) powr 4" by simp
    then have "((2 ^ 257) ^ 4 :: real) powr (1 / 4) = ((2 ^ 257) powr 4) powr (1 / 4)"
      by simp
    also have "\<dots> = (2 ^ 257) powr 1" by (simp only: powr_powr) simp
    finally show ?thesis by simp
  qed
  also have "(2 ^ 257 :: real) < dbl_overflow" by (simp add: dbl_overflow_def)
  finally show ?thesis .
qed

lemma pynum_pow_quarter:
  assumes "pynum_abs l < 2 * dbl_overflow"
  shows "\<exists>q. pynum_pow l 0.25 = Inr q"
proof (cases l)
  case (PyFloat v)
  with assms have "\<bar>v\<bar> < 2 * dbl_overflow" by (simp add: pynum_abs_def)
  then have "v \<noteq> 0 \<Longrightarrow> \<bar>v\<bar> powr (1 / 4) < dbl_overflow"
    by (intro quarter_below_overflow) simp_all
  then show ?thesis using PyFloat
    by (cases "v = 0"; cases "0 < v") (auto simp: pynum_pow_def float_pow_def)
next
  case (PyComplex z)
  with assms have "cmod z < 2 * dbl_overflow" by (simp add: pynum_abs_def)
  then have "z \<noteq> 0 \<Longrightarrow> cmod z powr (1 / 4) < dbl_overflow"
    by (intro quarter_below_overflow) simp_all
  then show ?thesis using PyComplex
    by (cases "z = 0") (auto simp: pynum_pow_def complex_pow_def)
qed

lemma pynum_abs_scale: "pynum_abs (pynum_scale c n) = \<bar>c\<bar> * pynum_abs n"
  by (cases n) (simp_all add: pynum_abs_def pynum_scale_def abs_mult norm_mult)

lemma mass_luminosity_abs:
  assumes "mass_luminosity m = Inr l"
  shows "pynum_abs l < 2 * dbl_overflow"
proof -
  have *: "\<bar>c\<bar> * pynum_abs p < 2 * dbl_overflow"
    if "float_pow m y = Inr p" "\<bar>c\<bar> \<le> 2" for c y p
  proof -
    from float_pow_abs[OF that(1)] have a: "pynum_abs p < dbl_overflow" .
    have "0 \<le> pynum_abs p" by (cases p) (simp_all add: pynum_abs_def)
    with that(2) have "\<bar>c\<bar> * pynum_abs p \<le> 2 * pynum_abs p"
      by (intro mult_right_mono) simp_all
    with a show ?thesis by linarith
  qed
  from assms show ?thesis
    using *[of "2.3" _ "0.23"] *[of "3.5" _ "1.4"] *[of 4 _ 1]
    by (auto simp: mass_luminosity_def bindE_Inr_iff pynum_abs_scale split: if_splits)
qed

lemma mass_luminosity_quarter:
  assumes "mass_luminosity m = Inr l"
  shows "\<exists>q. pynum_pow l 0.25 = Inr q"
  using pynum_pow_quarter[OF mass_luminosity_abs[OF assms]] .

text \<open>The rewrite rules that evaluate a run on concrete numbers, and the bounds on the
  powers that occur in the runs below.\<close>

lemmas star_eval = star_defs float_pow_pos float_pow_pos_neg_exp float_pow_neg
  float_pow_neg_neg_exp complex_pow_bounded

lemma formation_time_3: "fl (50000 * fl (1 / 3)) = 4581298449066666 / 2 ^ 38"
  by (simp only: fl_third fl_50000_third)

lemma formation_time_3_double:
  "fl (2290649224533333 / 137438953472) = 2290649224533333 / 137438953472"
  using fl_idem[of "50000 * fl (1 / 3)"] by (simp add: formation_time_3)

lemma powr_small:
  "(2::real) powr (7 / 2) \<le> 16" "(3::real) powr (7 / 2) \<le> 81"
  "(1 / 10 :: real) powr (23 / 10) \<le> 1" "(99999 / 50000 :: real) ^ 4 \<le> 16"
  "(1 / 2 :: real) powr (23 / 10) \<le> 1"
proof -
  show "(1 / 2 :: real) powr (23 / 10) \<le> 1" by (intro powr_le1) simp_all
  have "(2::real) powr (7 / 2) \<le> 2 powr 4" by (intro powr_mono) simp_all
  then show "(2::real) powr (7 / 2) \<le> 16" by simp
  have "(3::real) powr (7 / 2) \<le> 3 powr 4" by (intro powr_mono) simp_all
  then show "(3::real) powr (7 / 2) \<le> 81" by simp
  show "(1 / 10 :: real) powr (23 / 10) \<le> 1" by (intro powr_le1) simp_all
  have "(99999 / 50000 :: real) ^ 4 \<le> 2 ^ 4" by (intro power_mono) simp_all
  then show "(99999 / 50000 :: real) ^ 4 \<le> 16" by simp
qed

subsection \<open>Calls that return\<close>

lemma mass_luminosity_bounded:
  assumes "\<bar>m\<bar> \<le> 10 ^ 70"
  shows "\<exists>l. mass_luminosity m = Inr l"
proof -
  consider "m = 0" | "0 < m" | "m < 0" by linarith
  then show ?thesis
  proof cases
    case 1
    then show ?thesis by (simp add: mass_luminosity_def)
  next
    case 2
    with assms have "m \<le> 10 ^ 70" by simp
    with 2 show ?thesis
      by (simp add: mass_luminosity_def float_pow_pos)
  next
    case 3
    with assms have "- (10 ^ 70) \<le> m" by simp
    with 3 show ?thesis
      by (simp add: mass_luminosity_def float_pow_neg)
  qed
qed

lemma calculate_base_radius_bounded:
  assumes "\<bar>current_mass s\<bar> \<le> 10 ^ 70"
  shows "\<exists>b. calculate_base_radius s = Inr b"
proof -
  consider "current_mass s = 0" | "0 < current_mass s" | "current_mass s < 0" by linarith
  then show ?thesis
  proof cases
    case 1
    then show ?thesis by (simp add: calculate_base_radius_def)
  next
    case 2
    with assms have "current_mass s \<le> 10 ^ 70" by simp
    with 2 show ?thesis
      by (simp add: calculate_base_radius_def float_pow_pos)
  next
    case 3
    with assms have "- (10 ^ 70) \<le> current_mass s" by simp
    with 3 show ?thesis
      by (simp add: calculate_base_radius_def float_pow_neg)
  qed
qed

lemma get_main_sequence_lifetime_bounded:
  assumes "1 / 10 ^ 70 \<le> initial_mass s"
  shows "get_main_sequence_lifetime s =
     Inr (PyFloat (10 ^ 10 * initial_mass s powr (- 2.5) * (h2_percentage s / 71)))"
  using assms
  by (simp add: get_main_sequence_lifetime_def float_pow_pos_neg_exp pynum_scale_def)

lemma update_expansion_factor_bounded:
  assumes "1 / 10 ^ 70 \<le> initial_mass s"
  shows "\<exists>s'. update_expansion_factor s = Inr s'"
proof -
  from assms have "initial_mass s \<noteq> 0" by auto
  then show ?thesis
    by (cases "stage s")
       (simp_all add: update_expansion_factor_def get_formation_time_def Let_def
          get_main_sequence_lifetime_bounded[OF assms])
qed

lemma update_stellar_properties_bounded:
  assumes "1 / 10 ^ 70 \<le> initial_mass s" "\<bar>current_mass s\<bar> \<le> 10 ^ 70"
  shows "\<exists>s'. update_stellar_properties s = Inr s'"
proof -
  obtain lum where l: "mass_luminosity (current_mass s) = Inr lum"
    using mass_luminosity_bounded[OF assms(2)] by blast
  obtain q where q: "pynum_pow lum 0.25 = Inr q" using mass_luminosity_quarter[OF l] by blast
  obtain b where b: "calculate_base_radius s = Inr b"
    using calculate_base_radius_bounded[OF assms(2)] by blast
  let ?s1 = "s\<lparr>luminosity := lum, temperature := pynum_scale 5778 q,
                  radius := pynum_scale (expansion_factor s) b\<rparr>"
  from assms(1) have "initial_mass s \<noteq> 0" by auto
  then obtain s2 where d: "determine_stage ?s1 = Inr s2"
    by (simp add: determine_stage_eq)
  from determine_stage_fields(2)[OF d] assms(1) have "1 / 10 ^ 70 \<le> initial_mass s2" by simp
  then obtain s' where "update_expansion_factor s2 = Inr s'"
    using update_expansion_factor_bounded by blast
  with l q b d show ?thesis by (simp add: update_stellar_properties_def Let_def)
qed

lemma update_bounded:
  assumes "1 / 10 ^ 70 \<le> initial_mass s" "reach_inv s" "\<bar>current_mass s\<bar> \<le> 10 ^ 69"
    "- (10 ^ 11) \<le> dt" "dt \<le> 10 ^ 11"
  shows "\<exists>s'. update dt s = Inr s'"
proof -
  let ?s1 = "s\<lparr>age := fl (age s + dt)\<rparr>"
  have m': "\<bar>current_mass s - 1 / 10 ^ 11 * current_mass s * dt\<bar> \<le> 10 ^ 70"
  proof -
    have "current_mass s - 1 / 10 ^ 11 * current_mass s * dt
            = current_mass s * (1 - dt / 10 ^ 11)" by (simp add: algebra_simps)
    moreover have "\<bar>1 - dt / 10 ^ 11\<bar> \<le> 2" using assms(4,5) by (simp add: abs_le_iff field_simps)
    ultimately have "\<bar>current_mass s - 1 / 10 ^ 11 * current_mass s * dt\<bar>
                       \<le> \<bar>current_mass s\<bar> * 2"
      by (simp add: abs_mult mult_left_mono)
    with assms(3) show ?thesis by simp
  qed
  from assms(3) have m: "\<bar>current_mass s\<bar> \<le> 10 ^ 70" by simp
  show ?thesis
  proof (cases "stage s = MainSequence")
    case True
    with assms(1,2) have "0 < current_mass s"
      by (auto simp: reach_inv_def intro: less_le_trans[rotated])
    with m have "float_pow (current_mass s) 3.5 = Inr (PyFloat (current_mass s powr 3.5))"
      by (intro float_pow_pos) simp_all
    moreover have "\<exists>s'. update_stellar_properties (?s1\<lparr>current_h2 := h\<rparr>) = Inr s'" for h
      using assms(1) m by (intro update_stellar_properties_bounded) simp_all
    ultimately show ?thesis using True
      by (simp add: update_def Let_def)
  next
    case False
    have "\<exists>s'. update_stellar_properties (?s1\<lparr>current_mass := c\<rparr>) = Inr s'"
      if "\<bar>c\<bar> \<le> 10 ^ 70" for c
      using assms(1) that by (intro update_stellar_properties_bounded) simp_all
    moreover have "\<exists>s'. update_stellar_properties ?s1 = Inr s'"
      using assms(1) m by (intro update_stellar_properties_bounded) simp_all
    ultimately show ?thesis using False m'
      by (simp add: update_def Let_def)
  qed
qed

subsection \<open>Recomputation in a state that is already consistent\<close>







lemma get_main_sequence_lifetime_expansion_factor [simp]:
  "get_main_sequence_lifetime (s\<lparr>expansion_factor := e\<rparr>) = get_main_sequence_lifetime s"
  by (simp add: get_main_sequence_lifetime_def)



lemma new_stage_initial_radius [simp]:
  "new_stage ft (s\<lparr>initial_radius := r\<rparr>) = new_stage ft s"
  by (simp add: new_stage_def)

lemma calculate_base_radius_initial_radius [simp]:
  "calculate_base_radius (s\<lparr>initial_radius := r\<rparr>) = calculate_base_radius s"
  by (simp add: calculate_base_radius_def)








lemma new_stage_radius [simp]: "new_stage ft (s\<lparr>radius := r\<rparr>) = new_stage ft s"
  by (simp add: new_stage_def)







subsection \<open>Construction from a non-positive mass\<close>

lemma round_half_even_nonpos: "r \<le> 0 \<Longrightarrow> round_half_even r \<le> 0"
proof -
  assume r: "r \<le> 0"
  then have f: "\<lfloor>r\<rfloor> \<le> 0" by (simp add: floor_le_iff)
  show ?thesis
  proof (cases "r = of_int \<lfloor>r\<rfloor>")
    case True
    then have "r - of_int \<lfloor>r\<rfloor> = 0" by simp
    with f show ?thesis by (simp add: round_half_even_def Let_def)
  next
    case False
    then have "of_int \<lfloor>r\<rfloor> < r" using of_int_floor_le[of r] by linarith
    with r have "of_int \<lfloor>r\<rfloor> < (0::real)" by linarith
    then have "\<lfloor>r\<rfloor> < 0" by simp
    then have "\<lfloor>r\<rfloor> + 1 \<le> 0" by linarith
    with f show ?thesis by (simp add: round_half_even_def Let_def)
  qed
qed

lemma fl_nonpos: "x \<le> 0 \<Longrightarrow> fl x \<le> 0"
proof (cases "x = 0")
  case True
  then show ?thesis by (simp add: fl_def)
next
  case False
  assume x: "x \<le> 0"
  define u :: real where "u = 2 powi (max \<lfloor>log 2 \<bar>x\<bar>\<rfloor> (- 1022) - 52)"
  have u: "0 < u" by (simp add: u_def)
  with x have "x / u \<le> 0" by (simp add: divide_nonpos_pos)
  then have "round_half_even (x / u) \<le> 0" by (rule round_half_even_nonpos)
  then have "of_int (round_half_even (x / u)) * u \<le> 0"
    using u by (simp add: mult_nonpos_nonneg)
  with False show ?thesis by (simp add: fl_def Let_def u_def)
qed

lemma formation_time_nonpos:
  assumes "m < 0"
  shows "fl (50000 * fl (1 / m)) \<le> 0"
proof -
  from assms have "1 / m \<le> 0" by simp
  then have "fl (1 / m) \<le> 0" by (rule fl_nonpos)
  then have "50000 * fl (1 / m) \<le> 0" by simp
  then show ?thesis by (rule fl_nonpos)
qed

lemma init_zero_mass: "StarPhysics_init 0 h2 = Inl ZeroDivisionError"
  by (simp add: star_eval)

lemma init_negative_mass_steps:
  assumes "mass < 0" "- (10 ^ 70) \<le> mass"
  obtains s2 where
    "StarPhysics_init mass h2 =
       bindE (update_expansion_factor s2) (\<lambda>s. Inr (s\<lparr>initial_radius := radius s\<rparr>))"
    "initial_mass s2 = mass" "current_mass s2 = mass" "h2_percentage s2 = h2"
    "stage s2 = (if 0.1 < h2 then MainSequence else RedGiant)"
proof -
  let ?s0 = "\<lparr>initial_mass = mass, current_mass = mass, h2_percentage = h2, current_h2 = h2,
               age = 0, luminosity = PyFloat 0, temperature = PyFloat 0, radius = PyFloat 0,
               initial_radius = PyFloat 0, stage = Protostar, expansion_factor = 1.0\<rparr>"
  from assms have a: "\<bar>current_mass ?s0\<bar> \<le> 10 ^ 70" by simp
  obtain lum where l: "mass_luminosity (current_mass ?s0) = Inr lum"
    using mass_luminosity_bounded[OF a] by blast
  obtain q where q: "pynum_pow lum 0.25 = Inr q" using mass_luminosity_quarter[OF l] by blast
  obtain b where b: "calculate_base_radius ?s0 = Inr b"
    using calculate_base_radius_bounded[OF a] by blast
  let ?s1 = "?s0\<lparr>luminosity := lum, temperature := pynum_scale 5778 q,
                  radius := pynum_scale (expansion_factor ?s0) b\<rparr>"
  have u: "update_stellar_properties ?s0 =
             bindE (determine_stage ?s1) update_expansion_factor"
    by (simp only: update_stellar_properties_def l q b bindE_Inr Let_def)
  from formation_time_nonpos[OF assms(1)] have ft: "\<not> 0 < fl (50000 * fl (1 / mass))"
    by simp
  from assms(1) have n: "mass \<noteq> 0" "\<not> 1.44 < mass" by simp_all
  obtain s2 where d: "determine_stage ?s1 = Inr s2"
    using n by (simp add: determine_stage_eq)
  have "stage s2 = (if 0.1 < h2 then MainSequence else RedGiant)"
    using determine_stage_fields(11)[OF d] n ft by (simp add: new_stage_def)
  moreover have "initial_mass s2 = mass" "current_mass s2 = mass" "h2_percentage s2 = h2"
    using determine_stage_fields(2,3,4)[OF d] by simp_all
  moreover have "StarPhysics_init mass h2 =
       bindE (update_expansion_factor s2) (\<lambda>s. Inr (s\<lparr>initial_radius := radius s\<rparr>))"
    by (simp only: StarPhysics_init_def u d bindE_Inr)
  ultimately show ?thesis using that by blast
qed

lemma init_negative_mass_fuel:
  assumes "- (10 ^ 70) \<le> mass" "mass \<le> - (1 / 10 ^ 70)" "0.1 < h2"
  shows "StarPhysics_init mass h2 = Inl TypeError"
proof -
  from assms(2) have m: "mass < 0" by (rule le_less_trans) simp
  obtain s2 where
    i: "StarPhysics_init mass h2 =
       bindE (update_expansion_factor s2) (\<lambda>s. Inr (s\<lparr>initial_radius := radius s\<rparr>))"
    and f: "initial_mass s2 = mass" "stage s2 = (if 0.1 < h2 then MainSequence else RedGiant)"
    and "current_mass s2 = mass" "h2_percentage s2 = h2"
    by (rule init_negative_mass_steps[OF m assms(1), of h2])
  have "float_pow mass (- 2.5) =
          Inr (PyComplex (of_real (\<bar>mass\<bar> powr (- 2.5)) * cis (pi * (- 2.5))))"
    using assms(2) by (intro float_pow_neg_neg_exp) simp_all
  then have "update_expansion_factor s2 = Inl TypeError"
    using f assms(3)
    by (simp add: update_expansion_factor_def get_main_sequence_lifetime_def pynum_scale_def)
  with i show ?thesis by simp
qed

lemma init_negative_mass_no_fuel:
  assumes "mass < 0" "- (10 ^ 70) \<le> mass" "h2 \<le> 0.1"
  shows "\<exists>s. StarPhysics_init mass h2 = Inr s \<and> stage s = RedGiant \<and> current_mass s = mass"
proof -
  obtain s2 where
    i: "StarPhysics_init mass h2 =
       bindE (update_expansion_factor s2) (\<lambda>s. Inr (s\<lparr>initial_radius := radius s\<rparr>))"
    and "initial_mass s2 = mass"
    and f: "current_mass s2 = mass" "stage s2 = (if 0.1 < h2 then MainSequence else RedGiant)"
    and "h2_percentage s2 = h2"
    by (rule init_negative_mass_steps[OF assms(1,2), of h2])
  from f(2) assms(3) have "stage s2 = RedGiant" by simp
  with i f(1) show ?thesis
    by (simp add: update_expansion_factor_def Let_def)
qed

subsection \<open>Low luminosity\<close>



section \<open>The claims\<close>

subsection \<open>Stage determination\<close>

text \<open>
  Claim C3 says that the recomputed stage is the five-rule cascade with
  \<open>formationTime(m) = 50000/m\<close>. \<^verbatim>\<open>get_formation_time\<close> computes \<^verbatim>\<open>50000 * (1 / m)\<close>, and
  in double precision the two differ in the last bit: for the initial mass 3 the code's
  formation time is \<open>16666.666666666664\<close>, while \<open>50000/3\<close> rounds to \<open>16666.666666666668\<close>.
  The star of mass 3 with fuel 71, constructed as a Protostar and advanced by
  \<open>16666.666666666664\<close> years, has that age, mass 3 and fuel 71 and is in the stage
  MainSequence; the cascade of the specification, with \<open>50000/3\<close> rounded to a double
  or taken exactly, yields Protostar.
\<close>

theorem formation_time_counterexample:
  "fl (50000 * fl (1 / 3)) = 4581298449066666 / 2 ^ 38 \<and>
   formationTime 3 = 4581298449066667 / 2 ^ 38 \<and>
   map_sum id stage (simulate 3 71 []) = Inr Protostar \<and>
   map_sum id age (simulate 3 71 [fl (50000 * fl (1 / 3))]) = Inr (4581298449066666 / 2 ^ 38) \<and>
   map_sum id current_mass (simulate 3 71 [fl (50000 * fl (1 / 3))]) = Inr 3 \<and>
   map_sum id current_h2 (simulate 3 71 [fl (50000 * fl (1 / 3))]) = Inr 71 \<and>
   map_sum id stage (simulate 3 71 [fl (50000 * fl (1 / 3))]) = Inr MainSequence \<and>
   stage_cascade Protostar (4581298449066666 / 2 ^ 38) 3 71 (formationTime 3) = Protostar \<and>
   stage_cascade Protostar (4581298449066666 / 2 ^ 38) 3 71 (50000 / 3) = Protostar"
  using powr_small
  by (simp add: star_eval formation_time_3 formation_time_3_double formationTime_def
        fl_50000_div_3 stage_cascade_def)

text \<open>
  Claim C3, amended. In every state a run reaches, the stage that the recomputation
  computes is the five-rule cascade of the specification over the previous stage, the
  age, the current mass and the current fuel fraction, with the formation time as the
  code computes it: the double nearest to \<open>50000 * r\<close>, where \<open>r\<close> is the double nearest
  to \<open>1/initialMass\<close>. \<^verbatim>\<open>determine_stage\<close> returns and yields it; a tick \<^verbatim>\<open>update\<close> that
  returns yields it for the age, mass and fuel of that tick; and construction yields
  it from the stage Protostar.
\<close>

theorem stage_recomputation_is_cascade:
  assumes "simulate mass h2 dts = Inr s"
  shows "(\<exists>s'. determine_stage s = Inr s' \<and>
            stage s' = stage_cascade (stage s) (age s) (current_mass s) (current_h2 s)
                         (fl (50000 * fl (1 / initial_mass s)))) \<and>
         (\<forall>dt s'. update dt s = Inr s' \<longrightarrow>
            stage s' = stage_cascade (stage s) (age s') (current_mass s') (current_h2 s')
                         (fl (50000 * fl (1 / initial_mass s')))) \<and>
         (\<forall>s0. StarPhysics_init mass h2 = Inr s0 \<longrightarrow>
            stage s0 = stage_cascade Protostar (age s0) (current_mass s0) (current_h2 s0)
                         (fl (50000 * fl (1 / initial_mass s0))))"
proof (intro conjI allI impI)
  from simulate_reach_inv(2,4)[OF assms] have "initial_mass s \<noteq> 0" by simp
  then show "\<exists>s'. determine_stage s = Inr s' \<and>
            stage s' = stage_cascade (stage s) (age s) (current_mass s) (current_h2 s)
                         (fl (50000 * fl (1 / initial_mass s)))"
    by (rule determine_stage_cascade)
next
  fix dt s' assume "update dt s = Inr s'"
  then show "stage s' = stage_cascade (stage s) (age s') (current_mass s') (current_h2 s')
                         (fl (50000 * fl (1 / initial_mass s')))"
    by (rule update_fields(7))
next
  fix s0 assume "StarPhysics_init mass h2 = Inr s0"
  from init_fields[OF this]
  show "stage s0 = stage_cascade Protostar (age s0) (current_mass s0) (current_h2 s0)
                         (fl (50000 * fl (1 / initial_mass s0)))" by simp
qed

theorem stage_recomputation_is_cascade_witness:
  "\<exists>s. simulate 3 71 [] = Inr s \<and>
     (\<exists>s'. determine_stage s = Inr s' \<and>
            stage s' = stage_cascade (stage s) (age s) (current_mass s) (current_h2 s)
                         (fl (50000 * fl (1 / initial_mass s)))) \<and>
     (\<exists>s'. update (fl (50000 * fl (1 / 3))) s = Inr s' \<and> stage s' = MainSequence \<and>
            stage s' = stage_cascade (stage s) (age s') (current_mass s') (current_h2 s')
                         (fl (50000 * fl (1 / initial_mass s')))) \<and>
     (\<exists>s0. StarPhysics_init 3 71 = Inr s0 \<and>
            stage s0 = stage_cascade Protostar (age s0) (current_mass s0) (current_h2 s0)
                         (fl (50000 * fl (1 / initial_mass s0))))"
proof -
  have "\<exists>s s' s0. simulate 3 71 [] = Inr s \<and> update (fl (50000 * fl (1 / 3))) s = Inr s' \<and>
          stage s' = MainSequence \<and> StarPhysics_init 3 71 = Inr s0"
    using powr_small by (simp add: star_eval formation_time_3 formation_time_3_double)
  then obtain s s' s0 where s: "simulate 3 71 [] = Inr s"
    "update (fl (50000 * fl (1 / 3))) s = Inr s'" "stage s' = MainSequence"
    "StarPhysics_init 3 71 = Inr s0" by blast
  from stage_recomputation_is_cascade[OF s(1)] s show ?thesis by blast
qed

text \<open>
  Claim C2 says that some run reaches the stage Supernova. \<^verbatim>\<open>determine_stage\<close> yields
  Supernova only when the previous stage is already Supernova, and a star is
  constructed as a Protostar: no run, from any initial mass and fuel and with any
  time steps, ever reaches Supernova. The branch of \<^verbatim>\<open>handle_stage_transition\<close> for a
  transition into Supernova and the Supernova branch of \<^verbatim>\<open>update_expansion_factor\<close>
  are dead code.
\<close>

theorem supernova_unreachable:
  assumes "simulate mass h2 dts = Inr s"
  shows "stage s \<noteq> Supernova"
  using simulate_reach_inv(1)[OF assms] by (simp add: reach_inv_def)

theorem supernova_unreachable_witness:
  "\<exists>s. simulate 2 0 [25000, 0, 1000000] = Inr s \<and> stage s = RedGiant \<and> stage s \<noteq> Supernova"
proof -
  have "\<exists>s. simulate 2 0 [25000, 0, 1000000] = Inr s \<and> stage s = RedGiant"
    using powr_small by (simp add: star_eval)
  then obtain s where s: "simulate 2 0 [25000, 0, 1000000] = Inr s" "stage s = RedGiant"
    by blast
  from supernova_unreachable[OF s(1)] s show ?thesis by blast
qed

subsection \<open>Mass\<close>

text \<open>
  Claim C5 says that the current mass stays strictly positive under every sequence of
  non-negative time steps. A Red Giant tick replaces the mass \<open>m\<close> by
  \<open>m - (1e-11 * m) * deltaTime\<close> and, unlike the fuel block beside it, which takes the
  maximum with 0, does not clamp the result. The star of mass 1 without fuel is a Red
  Giant of positive mass after 50000 years, and a tick of \<open>2e11\<close> years returns and
  leaves it with a negative mass (about \<open>-1\<close>).
\<close>

theorem mass_negative_after_long_tick:
  "\<not> isl (simulate 1 0 [50000]) \<and>
   stage (projr (simulate 1 0 [50000])) = RedGiant \<and>
   0 < current_mass (projr (simulate 1 0 [50000])) \<and>
   \<not> isl (simulate 1 0 [50000, 200000000000]) \<and>
   current_mass (projr (simulate 1 0 [50000, 200000000000])) < 0"
  by (simp add: star_eval)

text \<open>
  Claim C9 says that no tick with a non-negative time step increases the current mass.
  The same unclamped subtraction, applied to the negative mass reached above, adds
  mass: a further Red Giant tick of \<open>2e11\<close> years returns and takes the mass from about
  \<open>-1\<close> up to about \<open>1\<close>.
\<close>

theorem red_giant_tick_gains_mass:
  "\<not> isl (simulate 1 0 [50000, 200000000000]) \<and>
   stage (projr (simulate 1 0 [50000, 200000000000])) = RedGiant \<and>
   (0::real) \<le> 200000000000 \<and>
   \<not> isl (simulate 1 0 [50000, 200000000000, 200000000000]) \<and>
   current_mass (projr (simulate 1 0 [50000, 200000000000]))
     < current_mass (projr (simulate 1 0 [50000, 200000000000, 200000000000]))"
  by (simp add: star_eval)

subsection \<open>Arguments that are not validated\<close>

text \<open>
  Claim C8 says that a negative time step is rejected and leaves the state alone.
  \<^verbatim>\<open>update\<close> checks nothing: on the freshly constructed star of mass 1 a tick of \<open>-1\<close>
  returns normally and moves the age from \<open>0\<close> to \<open>-1\<close>.
\<close>

theorem negative_delta_time_counterexample:
  "map_sum id age (simulate 1 71 []) = Inr 0 \<and>
   map_sum id age (simulate 1 71 [- 1]) = Inr (- 1)"
  by (simp add: star_eval)

text \<open>
  Claim C8, amended. \<^verbatim>\<open>update\<close> does not validate its argument. In every state that a
  run from an initial mass of at least \<open>1e-70\<close> reaches with a current mass of magnitude
  at most \<open>1e69\<close>, a call with a negative time step of at least \<open>-1e11\<close> returns normally
  and sets the age to the double nearest to the old age plus the time step, which is
  not above the old age; when the age and the time step are whole numbers and the age
  is at most \<open>2^52\<close> in magnitude, so that their sum is a double, the new age is exactly
  the old age plus the time step, and below the old age.
\<close>

theorem update_negative_delta_time:
  assumes "1 / 10 ^ 70 \<le> mass" "simulate mass h2 dts = Inr s"
    "\<bar>current_mass s\<bar> \<le> 10 ^ 69" "- (10 ^ 11) \<le> dt" "dt < 0"
  shows "\<exists>s'. update dt s = Inr s' \<and> age s' = fl (age s + dt) \<and> age s' \<le> age s \<and>
           (age s \<in> \<int> \<and> dt \<in> \<int> \<and> \<bar>age s\<bar> \<le> 2 ^ 52 \<longrightarrow>
              age s' = age s + dt \<and> age s' < age s)"
proof -
  from simulate_reach_inv[OF assms(2)] assms(1)
  have i: "1 / 10 ^ 70 \<le> initial_mass s" "reach_inv s" by simp_all
  from i(2) have r: "fl (age s) = age s" by (simp add: reach_inv_def)
  from assms(5) have "dt \<le> 10 ^ 11" by (rule less_imp_le[OF less_le_trans]) simp
  from update_bounded[OF i assms(3,4) this] obtain s' where u: "update dt s = Inr s'"
    by blast
  note a = update_fields(4)[OF u]
  from assms(5) have "age s + dt \<le> age s" by simp
  from fl_le_representable[OF this r] a have le: "age s' \<le> age s" by simp
  have "age s' = age s + dt"
    if w: "age s \<in> \<int>" "dt \<in> \<int>" "\<bar>age s\<bar> \<le> 2 ^ 52"
  proof -
    from w(1,2) obtain k d where k: "age s = of_int k" "dt = of_int d"
      by (auto elim!: Ints_cases)
    with w(3) assms(4,5) have "\<bar>k\<bar> \<le> 2 ^ 52" "- (10 ^ 11) \<le> d" "d < 0"
      by (simp_all flip: of_int_abs)
    then have "\<bar>k + d\<bar> < 2 ^ 53" by simp
    from fl_of_int[OF this] a k show ?thesis by simp
  qed
  with u a le assms(5) show ?thesis by auto
qed

theorem update_negative_delta_time_witness:
  "(1 / 10 ^ 70 :: real) \<le> 1 \<and> (- (10 ^ 11) :: real) \<le> - 1 \<and> (- 1 :: real) < 0 \<and>
   (\<exists>s. simulate 1 71 [50000] = Inr s \<and> \<bar>current_mass s\<bar> \<le> 10 ^ 69 \<and>
     age s \<in> \<int> \<and> (- 1 :: real) \<in> \<int> \<and> \<bar>age s\<bar> \<le> 2 ^ 52 \<and>
     (\<exists>s'. update (- 1) s = Inr s' \<and> age s' \<le> age s \<and> age s' = age s + (- 1) \<and>
        age s' < age s))"
proof -
  have "\<exists>s. simulate 1 71 [50000] = Inr s \<and> \<bar>current_mass s\<bar> \<le> 10 ^ 69 \<and>
     age s \<in> \<int> \<and> \<bar>age s\<bar> \<le> 2 ^ 52"
    by (simp add: star_eval)
  then obtain s where s: "simulate 1 71 [50000] = Inr s" "\<bar>current_mass s\<bar> \<le> 10 ^ 69"
    "age s \<in> \<int>" "\<bar>age s\<bar> \<le> 2 ^ 52" by blast
  have m: "(1 / 10 ^ 70 :: real) \<le> 1" and d: "(- (10 ^ 11) :: real) \<le> - 1" "(- 1 :: real) < 0"
    and z: "(- 1 :: real) \<in> \<int>"
    by simp_all
  from update_negative_delta_time[OF m s(1,2) d] s m d z show ?thesis by blast
qed

text \<open>
  Claim C7 says that construction with a non-positive initial mass is rejected.
  \<^verbatim>\<open>__init__\<close> checks nothing: with mass \<open>-1\<close> and no fuel it returns a star, in
  the stage RedGiant.
\<close>

theorem init_negative_mass_counterexample:
  "map_sum id stage (StarPhysics_init (- 1) 0) = Inr RedGiant"
  by (simp add: star_eval)

text \<open>
  Claim C7, amended. \<^verbatim>\<open>__init__\<close> does not validate the initial mass. With initial mass
  \<open>0\<close> construction fails, with the \<^verbatim>\<open>ZeroDivisionError\<close> of \<^verbatim>\<open>get_formation_time\<close>. With
  a negative initial mass between \<open>-1e70\<close> and \<open>-1e-70\<close> it fails with a \<^verbatim>\<open>TypeError\<close> (the
  complex Main Sequence lifetime is compared with \<open>0\<close>) when the fuel fraction exceeds
  \<open>0.1\<close>, and otherwise returns a star in the stage RedGiant. (Outside these bounds a
  power may raise \<^verbatim>\<open>OverflowError\<close> first.)
\<close>

theorem init_nonpositive_mass:
  "StarPhysics_init 0 h2 = Inl ZeroDivisionError \<and>
   (- (10 ^ 70) \<le> mass \<and> mass \<le> - (1 / 10 ^ 70) \<and> 0.1 < h2 \<longrightarrow>
      StarPhysics_init mass h2 = Inl TypeError) \<and>
   (- (10 ^ 70) \<le> mass \<and> mass \<le> - (1 / 10 ^ 70) \<and> h2 \<le> 0.1 \<longrightarrow>
      (\<exists>s. StarPhysics_init mass h2 = Inr s \<and> stage s = RedGiant \<and> current_mass s = mass))"
proof -
  have "mass < 0" if "mass \<le> - (1 / 10 ^ 70)"
    using that by (rule le_less_trans) simp
  with init_zero_mass init_negative_mass_fuel init_negative_mass_no_fuel
  show ?thesis by blast
qed

theorem init_nonpositive_mass_witness:
  "StarPhysics_init 0 71 = Inl ZeroDivisionError \<and>
   (- (10 ^ 70) :: real) \<le> - 1 \<and> (- 1 :: real) \<le> - (1 / 10 ^ 70) \<and> (0.1 :: real) < 71 \<and>
   StarPhysics_init (- 1) 71 = Inl TypeError \<and>
   (0 :: real) \<le> 0.1 \<and>
   (\<exists>s. StarPhysics_init (- 1) 0 = Inr s \<and> stage s = RedGiant \<and> current_mass s = - 1)"
proof -
  have a: "(- (10 ^ 70) :: real) \<le> - 1" "(- 1 :: real) \<le> - (1 / 10 ^ 70)"
    and b: "(0.1 :: real) < 71" and c: "(0 :: real) \<le> 0.1"
    by simp_all
  from init_nonpositive_mass[of 71 "- 1"] init_nonpositive_mass[of 0 "- 1"] a b c
  show ?thesis by blast
qed

subsection \<open>Derived properties\<close>

text \<open>
  Claim C1 says that after construction and after every tick the radius is the base
  radius of the current mass times the expansion factor that results from that same
  call. \<^verbatim>\<open>update_stellar_properties\<close> assigns the radius before it calls
  \<^verbatim>\<open>determine_stage\<close> and \<^verbatim>\<open>update_expansion_factor\<close>, so the radius carries the
  expansion factor of the call before. For the star of mass 1 the base radius is 1:
  construction leaves radius 1 beside expansion factor 2, and for the star without
  fuel the tick of 50000 years leaves radius 2 beside expansion factor 2.1.
\<close>

theorem radius_uses_stale_expansion_factor:
  "map_sum id radius (StarPhysics_init 1 71) = Inr (PyFloat 1) \<and>
   bindE (StarPhysics_init 1 71) calculate_base_radius = Inr (PyFloat 1) \<and>
   map_sum id expansion_factor (StarPhysics_init 1 71) = Inr 2 \<and>
   map_sum id radius (simulate 1 0 [50000]) = Inr (PyFloat 2) \<and>
   bindE (simulate 1 0 [50000]) calculate_base_radius = Inr (PyFloat 1) \<and>
   map_sum id expansion_factor (simulate 1 0 [50000]) = Inr (21 / 10)"
  by (simp add: star_eval)




subsection \<open>The Main Sequence lifetime\<close>



subsection \<open>A tick of zero years\<close>




end
